theory Spec2Isabelle
  imports Main
begin

section \<open>Values\<close>

text \<open>
  Python exceptions that the operations of \<^verbatim>\<open>operations.py\<close> can meet. \<open>ClientError\<close>
  carries the entry \<^verbatim>\<open>'Error'\<close> of its \<^verbatim>\<open>e.response\<close>, a dictionary in which the backend's
  message stands under \<^verbatim>\<open>'Message'\<close>; \<open>None\<close> is a response without that entry.
  \<open>OtherException\<close> stands for any exception of another class (for instance a connection
  failure of the client library, or a database error).
\<close>

datatype exn =
    ClientError "(string \<times> string) list option"
  | InvalidOperation
  | TypeError
  | IndexError
  | KeyError string
  | OtherException string

text \<open>
  A finite \<^verbatim>\<open>decimal.Decimal\<close>: sign (\<open>True\<close> for negative), coefficient and exponent;
  its value is \<open>\<plusminus> coefficient * 10 ^ exponent\<close>.
\<close>

datatype decimal = Dec bool nat int

text \<open>
  Python values as they occur in records: \<open>PObject\<close> is an object of any class that the
  JSON encoder does not know (a \<^verbatim>\<open>set\<close>, \<^verbatim>\<open>bytes\<close>, ...), named by its class. The type
  \<open>'f\<close> is the type of double-precision floats, which is left open. Dictionaries keep
  their insertion order and have string keys.
\<close>

datatype 'f pyval =
    PNone
  | PBool bool
  | PInt int
  | PFloat 'f
  | PStr string
  | PDecimal decimal
  | PObject string
  | PList "'f pyval list"
  | PDict "(string \<times> 'f pyval) list"

section \<open>Decimal arithmetic of the default context\<close>

text \<open>
  The module never changes the decimal context, so \<^verbatim>\<open>o % 1\<close> runs under the default one:
  precision 28, \<^verbatim>\<open>Emin = -999999\<close>, hence \<^verbatim>\<open>Etiny = Emin - prec + 1 = -1000026\<close>, rounding
  half-even, \<^verbatim>\<open>InvalidOperation\<close> trapped.
\<close>

definition prec :: nat where
  "prec = 28"

definition Etiny :: int where
  "Etiny = - 1000026"

text \<open>The integer part of the absolute value, and the digits behind the point.\<close>

fun dec_trunc :: "decimal \<Rightarrow> nat" where
  "dec_trunc (Dec s c e) = (if 0 \<le> e then c * 10 ^ nat e else c div 10 ^ nat (- e))"

fun dec_frac :: "decimal \<Rightarrow> nat" where
  "dec_frac (Dec s c e) = (if 0 \<le> e then 0 else c mod 10 ^ nat (- e))"

text \<open>
  \<^verbatim>\<open>bool(o % 1)\<close>. The remainder cannot be computed when the integer quotient needs more
  than \<open>prec\<close> digits (\<^verbatim>\<open>DivisionImpossible\<close>, raised as \<^verbatim>\<open>InvalidOperation\<close>). Otherwise
  the remainder is the fractional part with the sign of \<open>o\<close>, rounded to the context: a
  remainder whose exponent is below \<open>Etiny\<close> is rounded half-even to a multiple of
  \<open>10 ^ Etiny\<close>, which gives zero when it is at most half of that unit.
\<close>

fun dec_mod1 :: "decimal \<Rightarrow> exn + bool" where
  "dec_mod1 (Dec s c e) =
     (if c = 0 then Inr False
      else if 10 ^ prec \<le> dec_trunc (Dec s c e) then Inl InvalidOperation
      else if Etiny \<le> e then Inr (dec_frac (Dec s c e) \<noteq> 0)
      else Inr (10 ^ nat (Etiny - e) < 2 * dec_frac (Dec s c e)))"

text \<open>\<^verbatim>\<open>int(o)\<close> truncates towards zero.\<close>

fun dec_int :: "decimal \<Rightarrow> int" where
  "dec_int (Dec s c e) = (if s then - int (dec_trunc (Dec s c e)) else int (dec_trunc (Dec s c e)))"

section \<open>The encoder\<close>

text \<open>
  \<^verbatim>\<open>DecimalEncoder.default\<close>, with \<^verbatim>\<open>float(o)\<close> as the parameter \<open>fl\<close>. For an object that
  is no Decimal, \<^verbatim>\<open>super().default(o)\<close> raises \<^verbatim>\<open>TypeError\<close>.
\<close>

fun DecimalEncoder_default :: "(decimal \<Rightarrow> 'f) \<Rightarrow> 'f pyval \<Rightarrow> exn + 'f pyval" where
  "DecimalEncoder_default fl (PDecimal d) =
     (case dec_mod1 d of
        Inl err \<Rightarrow> Inl err
      | Inr nonzero \<Rightarrow> if nonzero then Inr (PFloat (fl d)) else Inr (PInt (dec_int d)))"
| "DecimalEncoder_default fl v = Inl TypeError"

text \<open>
  The traversal of \<^verbatim>\<open>json.JSONEncoder\<close>: \<^verbatim>\<open>None\<close>, booleans, integers, floats, strings,
  lists and dictionaries are emitted as they are, elements in order; any other object is
  handed to \<open>default\<close>, whose result (here an integer or a float) is emitted in its
  place. The first exception ends the traversal.
\<close>

fun encode :: "(decimal \<Rightarrow> 'f) \<Rightarrow> 'f pyval \<Rightarrow> exn + 'f pyval"
  and encode_list :: "(decimal \<Rightarrow> 'f) \<Rightarrow> 'f pyval list \<Rightarrow> exn + 'f pyval list"
  and encode_items :: "(decimal \<Rightarrow> 'f) \<Rightarrow> (string \<times> 'f pyval) list \<Rightarrow> exn + (string \<times> 'f pyval) list"
where
  "encode fl PNone = Inr PNone"
| "encode fl (PBool b) = Inr (PBool b)"
| "encode fl (PInt i) = Inr (PInt i)"
| "encode fl (PFloat x) = Inr (PFloat x)"
| "encode fl (PStr s) = Inr (PStr s)"
| "encode fl (PDecimal d) = DecimalEncoder_default fl (PDecimal d)"
| "encode fl (PObject c) = DecimalEncoder_default fl (PObject c)"
| "encode fl (PList xs) =
     (case encode_list fl xs of Inl err \<Rightarrow> Inl err | Inr ys \<Rightarrow> Inr (PList ys))"
| "encode fl (PDict kvs) =
     (case encode_items fl kvs of Inl err \<Rightarrow> Inl err | Inr kws \<Rightarrow> Inr (PDict kws))"
| "encode_list fl [] = Inr []"
| "encode_list fl (x # xs) =
     (case encode fl x of
        Inl err \<Rightarrow> Inl err
      | Inr y \<Rightarrow> (case encode_list fl xs of Inl err \<Rightarrow> Inl err | Inr ys \<Rightarrow> Inr (y # ys)))"
| "encode_items fl [] = Inr []"
| "encode_items fl ((k, v) # kvs) =
     (case encode fl v of
        Inl err \<Rightarrow> Inl err
      | Inr w \<Rightarrow> (case encode_items fl kvs of Inl err \<Rightarrow> Inl err | Inr kws \<Rightarrow> Inr ((k, w) # kws)))"

text \<open>
  A JSON document is identified with the tree of values that the encoder emitted;
  \<^verbatim>\<open>json.loads\<close> gives that tree back. The layout (\<^verbatim>\<open>indent=4\<close>) is not modelled.
\<close>

datatype 'f json_text = JsonText "'f pyval"

definition json_dumps :: "(decimal \<Rightarrow> 'f) \<Rightarrow> 'f pyval \<Rightarrow> exn + 'f json_text" where
  "json_dumps fl v = (case encode fl v of Inl err \<Rightarrow> Inl err | Inr t \<Rightarrow> Inr (JsonText t))"

fun json_loads :: "'f json_text \<Rightarrow> 'f pyval" where
  "json_loads (JsonText t) = t"

text \<open>\<^verbatim>\<open>json.loads(json.dumps(v, indent=4, cls=DecimalEncoder))\<close>, the tail of every read path.\<close>

definition json_normalize :: "(decimal \<Rightarrow> 'f) \<Rightarrow> 'f pyval \<Rightarrow> exn + 'f pyval" where
  "json_normalize fl v = (case json_dumps fl v of Inl err \<Rightarrow> Inl err | Inr s \<Rightarrow> Inr (json_loads s))"

section \<open>The document store and its client\<close>

type_synonym 'f dict = "(string \<times> 'f pyval) list"

text \<open>
  Condition expressions are built by the caller and handed through; \<open>getByIndex\<close> builds
  \<^verbatim>\<open>Key(name).eq(value)\<close> itself, and \<open>queryFilter\<close> passes a text.
\<close>

datatype 'f expr =
    Key_eq string "'f pyval"
  | Expr_text string
  | Expr_obj nat

text \<open>The keyword arguments of \<^verbatim>\<open>tabela.query\<close>; \<open>None\<close> is an argument that is not passed.\<close>

record 'f query_args =
  IndexName :: "string option"
  KeyConditionExpression :: "'f expr"
  FilterExpression :: "'f expr option"
  ProjectionExpression :: "string option"
  ExpressionAttributeNames :: "(string \<times> string) list option"
  ExpressionAttributeValues :: "'f dict option"
  ScanIndexForward :: "bool option"
  Limit :: "int option"
  ExclusiveStartKey :: "'f dict option"
  Select :: "string option"

definition kwargs :: "'f expr \<Rightarrow> 'f query_args" where
  "kwargs cond =
     \<lparr>IndexName = None, KeyConditionExpression = cond, FilterExpression = None,
      ProjectionExpression = None, ExpressionAttributeNames = None,
      ExpressionAttributeValues = None, ScanIndexForward = None, Limit = None,
      ExclusiveStartKey = None, Select = None\<rparr>"

text \<open>
  The calls of the client: \<open>UpdateItem key expression values return_values names\<close>,
  \<open>DeleteItem key condition values\<close>.
\<close>

datatype 'f request =
    GetItem "'f dict"
  | Query "'f query_args"
  | UpdateItem "'f dict" string "'f dict" string "(string \<times> string) list option"
  | PutItem "'f dict"
  | DeleteItem "'f dict" string "'f dict"

text \<open>
  A response of the client is a dictionary; the record has the keys that the module reads
  (\<open>None\<close>: the key is absent) and keeps the other entries in \<open>Rest\<close>.
\<close>

record 'f response =
  Item :: "'f dict option"
  Items :: "'f pyval list option"
  LastEvaluatedKey :: "'f dict option"
  Count :: "int option"
  Attributes :: "'f dict option"
  Rest :: "'f dict"

definition entry :: "string \<Rightarrow> 'f pyval option \<Rightarrow> 'f dict" where
  "entry k v = (case v of None \<Rightarrow> [] | Some x \<Rightarrow> [(k, x)])"

definition response_dict :: "'f response \<Rightarrow> 'f pyval" where
  "response_dict r =
     PDict (entry ''Item'' (map_option PDict (Item r)) @
            entry ''Items'' (map_option PList (Items r)) @
            entry ''LastEvaluatedKey'' (map_option PDict (LastEvaluatedKey r)) @
            entry ''Count'' (map_option PInt (Count r)) @
            entry ''Attributes'' (map_option PDict (Attributes r)) @
            Rest r)"

text \<open>
  The table handle \<open>tabela\<close> is opaque: a call either raises or returns a response, and
  may change the state \<open>'s\<close> of the backend.
\<close>

type_synonym ('f, 's) table = "'f request \<Rightarrow> 's \<Rightarrow> (exn + 'f response) \<times> 's"

text \<open>
  What an operation leaves behind: the state of the backend, the calls made (in order) and
  the log lines written. A log line is modelled by its severity; an error line carries the
  exception it reports, the fixed text of the message is left out.
\<close>

datatype log_entry = Error_entry exn | Warning_entry

record ('r, 's) world =
  store :: 's
  trace :: "'r list"
  logs :: "log_entry list"

definition logging_error :: "exn \<Rightarrow> ('r, 's) world \<Rightarrow> ('r, 's) world" where
  "logging_error err w = w\<lparr>logs := logs w @ [Error_entry err]\<rparr>"

definition logging_warning :: "('r, 's) world \<Rightarrow> ('r, 's) world" where
  "logging_warning w = w\<lparr>logs := logs w @ [Warning_entry]\<rparr>"

definition invoke ::
  "('r \<Rightarrow> 's \<Rightarrow> (exn + 'a) \<times> 's) \<Rightarrow> 'r \<Rightarrow> ('r, 's) world \<Rightarrow> (exn + 'a) \<times> ('r, 's) world" where
  "invoke backend req w =
     (case backend req (store w) of
        (r, s) \<Rightarrow> (r, w\<lparr>store := s, trace := trace w @ [req]\<rparr>))"

text \<open>What an operation returns: a value, or the text of a JSON document.\<close>

datatype 'f ret = Value "'f pyval" | Text "'f json_text"

definition sentinel :: "'f ret" where
  "sentinel = Value (PBool False)"

text \<open>Truth value of an optional string, list or dictionary (\<^verbatim>\<open>if fields:\<close>, \<^verbatim>\<open>if items:\<close>).\<close>

fun truthy :: "'a list option \<Rightarrow> bool" where
  "truthy None = False"
| "truthy (Some xs) = (xs \<noteq> [])"

text \<open>
  Truth value of an optional condition (\<^verbatim>\<open>if filter:\<close>): a text is true when it is not
  empty, a condition object always.
\<close>

fun truthy_expr :: "'f expr option \<Rightarrow> bool" where
  "truthy_expr None = False"
| "truthy_expr (Some (Expr_text s)) = (s \<noteq> [])"
| "truthy_expr (Some c) = True"

text \<open>
  \<^verbatim>\<open>e.response['Error']['Message']\<close>, which every handler of \<open>ClientError\<close> evaluates for its
  log line before it returns: a missing key raises \<^verbatim>\<open>KeyError\<close> out of the handler.
\<close>

definition error_message :: "(string \<times> string) list option \<Rightarrow> exn + string" where
  "error_message response =
     (case response of
        None \<Rightarrow> Inl (KeyError ''Error'')
      | Some error \<Rightarrow>
          (case map_of error ''Message'' of
             None \<Rightarrow> Inl (KeyError ''Message'')
           | Some m \<Rightarrow> Inr m))"

text \<open>
  The frame shared by the operations:
  \<^verbatim>\<open>try: response = <call>
  except ClientError as e: logging.error(f"...{e.response['Error']['Message']}"); return <failure>
  else: ...\<close>.
  An exception of any other class is not caught.
\<close>

definition try_call ::
  "('f, 's) table \<Rightarrow> 'f request \<Rightarrow> 'f ret \<Rightarrow>
   ('f response \<Rightarrow> ('f request, 's) world \<Rightarrow> (exn + 'f ret) \<times> ('f request, 's) world) \<Rightarrow>
   ('f request, 's) world \<Rightarrow> (exn + 'f ret) \<times> ('f request, 's) world" where
  "try_call tabela req failure else_branch w =
     (case invoke tabela req w of
        (Inl err, w1) \<Rightarrow>
          (case err of
             ClientError error_response \<Rightarrow>
               (case error_message error_response of
                  Inl key_error \<Rightarrow> (Inl key_error, w1)
                | Inr m \<Rightarrow> (Inr failure, logging_error err w1))
           | _ \<Rightarrow> (Inl err, w1))
      | (Inr response, w1) \<Rightarrow> else_branch response w1)"

text \<open>\<^verbatim>\<open>return json.loads(json.dumps(v, indent=4, cls=DecimalEncoder))\<close>\<close>

definition return_normalized ::
  "(decimal \<Rightarrow> 'f) \<Rightarrow> 'f pyval \<Rightarrow> 'w \<Rightarrow> (exn + 'f ret) \<times> 'w" where
  "return_normalized fl v w =
     (case json_normalize fl v of Inl err \<Rightarrow> (Inl err, w) | Inr r \<Rightarrow> (Inr (Value r), w))"

text \<open>
  \<^verbatim>\<open>items = response.get('Items')\<close>, then the normalized items when \<open>items\<close> is true,
  else a warning and \<^verbatim>\<open>False\<close>.
\<close>

definition return_items ::
  "(decimal \<Rightarrow> 'f) \<Rightarrow> 'f response \<Rightarrow> ('r, 's) world \<Rightarrow> (exn + 'f ret) \<times> ('r, 's) world" where
  "return_items fl response w =
     (case Items response of
        Some items \<Rightarrow>
          if items \<noteq> [] then return_normalized fl (PList items) w
          else (Inr sentinel, logging_warning w)
      | None \<Rightarrow> (Inr sentinel, logging_warning w))"

section \<open>OperationsDynamo\<close>

definition Dynamo_get ::
  "(decimal \<Rightarrow> 'f) \<Rightarrow> ('f, 's) table \<Rightarrow> 'f dict \<Rightarrow>
   ('f request, 's) world \<Rightarrow> (exn + 'f ret) \<times> ('f request, 's) world" where
  "Dynamo_get fl tabela params =
     try_call tabela (GetItem params) sentinel
       (\<lambda>response w.
          case Item response of
            Some item \<Rightarrow>
              if item \<noteq> [] then return_normalized fl (PDict item) w
              else (Inr sentinel, logging_warning w)
          | None \<Rightarrow> (Inr sentinel, logging_warning w))"

text \<open>
  \<^verbatim>\<open>index_key = list(index.keys())[0]\<close> stands before the \<^verbatim>\<open>try\<close> and raises \<^verbatim>\<open>IndexError\<close>
  for an empty mapping.
\<close>

definition index_query :: "string \<Rightarrow> 'f pyval \<Rightarrow> 'f query_args" where
  "index_query index_key val =
     (kwargs (Key_eq index_key val))\<lparr>IndexName := Some (index_key @ ''-index'')\<rparr>"

definition Dynamo_getByIndex ::
  "(decimal \<Rightarrow> 'f) \<Rightarrow> ('f, 's) table \<Rightarrow> 'f dict \<Rightarrow>
   ('f request, 's) world \<Rightarrow> (exn + 'f ret) \<times> ('f request, 's) world" where
  "Dynamo_getByIndex fl tabela index w =
     (case index of
        [] \<Rightarrow> (Inl IndexError, w)
      | (index_key, val) # rest \<Rightarrow>
          try_call tabela (Query (index_query index_key val)) sentinel (return_items fl) w)"

definition Dynamo_update ::
  "('f, 's) table \<Rightarrow> 'f dict \<Rightarrow> string \<Rightarrow> 'f dict \<Rightarrow> (string \<times> string) list option \<Rightarrow>
   ('f request, 's) world \<Rightarrow> (exn + 'f ret) \<times> ('f request, 's) world" where
  "Dynamo_update tabela condition expression attr attrnames =
     try_call tabela
       (UpdateItem condition expression attr ''UPDATED_NEW''
          (if truthy attrnames then attrnames else None))
       sentinel
       (\<lambda>response_update w.
          if Attributes response_update \<noteq> None then (Inr (Value (PBool True)), w)
          else (Inr sentinel, logging_warning w))"

definition return_dumped ::
  "(decimal \<Rightarrow> 'f) \<Rightarrow> 'f response \<Rightarrow> 'w \<Rightarrow> (exn + 'f ret) \<times> 'w" where
  "return_dumped fl response w =
     (case json_dumps fl (response_dict response) of
        Inl err \<Rightarrow> (Inl err, w)
      | Inr s \<Rightarrow> (Inr (Text s), w))"

definition Dynamo_create ::
  "(decimal \<Rightarrow> 'f) \<Rightarrow> ('f, 's) table \<Rightarrow> 'f dict \<Rightarrow>
   ('f request, 's) world \<Rightarrow> (exn + 'f ret) \<times> ('f request, 's) world" where
  "Dynamo_create fl tabela params =
     try_call tabela (PutItem params) sentinel (return_dumped fl)"

definition Dynamo_remove ::
  "(decimal \<Rightarrow> 'f) \<Rightarrow> ('f, 's) table \<Rightarrow> 'f dict \<Rightarrow> string \<Rightarrow> 'f dict \<Rightarrow>
   ('f request, 's) world \<Rightarrow> (exn + 'f ret) \<times> ('f request, 's) world" where
  "Dynamo_remove fl tabela params condition attr =
     try_call tabela (DeleteItem params condition attr) sentinel (return_dumped fl)"

text \<open>
  The query dictionary that \<open>listAll\<close> and \<open>listAllPaginate\<close> build. The argument \<open>fields\<close> of
  the source is written \<open>fields'\<close>, \<open>filter\<close> is written \<open>filter_arg\<close>.
\<close>

definition list_query ::
  "'f expr \<Rightarrow> string option \<Rightarrow> (string \<times> string) list option \<Rightarrow> 'f query_args" where
  "list_query params fields' attrnames =
     (kwargs params)
       \<lparr>ProjectionExpression := (if truthy fields' then fields' else None),
        ExpressionAttributeNames := (if truthy attrnames then attrnames else None),
        ScanIndexForward := Some False\<rparr>"

definition Dynamo_listAll ::
  "(decimal \<Rightarrow> 'f) \<Rightarrow> ('f, 's) table \<Rightarrow> 'f expr \<Rightarrow> string option \<Rightarrow> 'f expr option \<Rightarrow>
   (string \<times> string) list option \<Rightarrow>
   ('f request, 's) world \<Rightarrow> (exn + 'f ret) \<times> ('f request, 's) world" where
  "Dynamo_listAll fl tabela params fields' filter_arg attrnames =
     try_call tabela
       (Query ((list_query params fields' attrnames)
          \<lparr>FilterExpression := (if truthy_expr filter_arg then filter_arg else None)\<rparr>))
       sentinel (return_items fl)"

text \<open>The query of \<open>getFirstRegistry\<close> (\<open>forward = True\<close>) and \<open>getLastRegistry\<close>.\<close>

definition registry_query :: "'f expr \<Rightarrow> string option \<Rightarrow> bool \<Rightarrow> 'f query_args" where
  "registry_query params fields' forward =
     (kwargs params)
       \<lparr>ProjectionExpression := (if truthy fields' then fields' else None),
        ScanIndexForward := Some forward,
        Limit := Some 1\<rparr>"

definition Dynamo_getFirstRegistry ::
  "(decimal \<Rightarrow> 'f) \<Rightarrow> ('f, 's) table \<Rightarrow> 'f expr \<Rightarrow> string option \<Rightarrow>
   ('f request, 's) world \<Rightarrow> (exn + 'f ret) \<times> ('f request, 's) world" where
  "Dynamo_getFirstRegistry fl tabela params fields' =
     try_call tabela (Query (registry_query params fields' True)) sentinel (return_items fl)"

definition Dynamo_getLastRegistry ::
  "(decimal \<Rightarrow> 'f) \<Rightarrow> ('f, 's) table \<Rightarrow> 'f expr \<Rightarrow> string option \<Rightarrow>
   ('f request, 's) world \<Rightarrow> (exn + 'f ret) \<times> ('f request, 's) world" where
  "Dynamo_getLastRegistry fl tabela params fields' =
     try_call tabela (Query (registry_query params fields' False)) sentinel (return_items fl)"

text \<open>
  The loop of \<open>listAllPaginate\<close>,
  \<^verbatim>\<open>while 'LastEvaluatedKey' in response: query['ExclusiveStartKey'] = ...;
  response = tabela.query(**query); data.extend(response.get('Items', []))\<close>.
  It stands in the \<^verbatim>\<open>else\<close> branch, outside the \<^verbatim>\<open>try\<close>: an exception of a later call
  is not caught. The loop ends only when a response has no cursor, so the function is
  partial: \<open>None\<close> is a run that never returns.
\<close>

partial_function (option) paginate ::
  "('f, 's) table \<Rightarrow> 'f query_args \<Rightarrow> 'f response \<Rightarrow> 'f pyval list \<Rightarrow>
   ('f request, 's) world \<Rightarrow> ((exn + 'f pyval list) \<times> ('f request, 's) world) option" where
  "paginate tabela query response data w =
     (case LastEvaluatedKey response of
        None \<Rightarrow> Some (Inr data, w)
      | Some key \<Rightarrow>
          (case invoke tabela (Query (query\<lparr>ExclusiveStartKey := Some key\<rparr>)) w of
             (Inl err, w1) \<Rightarrow> Some (Inl err, w1)
           | (Inr response1, w1) \<Rightarrow>
               paginate tabela (query\<lparr>ExclusiveStartKey := Some key\<rparr>) response1
                 (data @ (case Items response1 of None \<Rightarrow> [] | Some items \<Rightarrow> items)) w1))"

definition Dynamo_listAllPaginate ::
  "(decimal \<Rightarrow> 'f) \<Rightarrow> ('f, 's) table \<Rightarrow> 'f expr \<Rightarrow> string option \<Rightarrow>
   (string \<times> string) list option \<Rightarrow>
   ('f request, 's) world \<Rightarrow> ((exn + 'f ret) \<times> ('f request, 's) world) option" where
  "Dynamo_listAllPaginate fl tabela params fields' attrnames w =
     (case invoke tabela (Query (list_query params fields' attrnames)) w of
        (Inl err, w1) \<Rightarrow>
          (case err of
             ClientError error_response \<Rightarrow>
               (case error_message error_response of
                  Inl key_error \<Rightarrow> Some (Inl key_error, w1)
                | Inr m \<Rightarrow> Some (Inr sentinel, logging_error err w1))
           | _ \<Rightarrow> Some (Inl err, w1))
      | (Inr response, w1) \<Rightarrow>
          (case Items response of
             Some items \<Rightarrow>
               if items \<noteq> [] then
                 (case paginate tabela (list_query params fields' attrnames) response items w1 of
                    None \<Rightarrow> None
                  | Some (Inl err, w2) \<Rightarrow> Some (Inl err, w2)
                  | Some (Inr data, w2) \<Rightarrow> Some (return_normalized fl (PList data) w2))
               else Some (Inr sentinel, logging_warning w1)
           | None \<Rightarrow> Some (Inr sentinel, logging_warning w1)))"

text \<open>The failure value of \<open>scanPaginate\<close>, \<^verbatim>\<open>{"lastKey": None, "results": []}\<close>.\<close>

definition empty_page :: "'f ret" where
  "empty_page = Value (PDict [(''lastKey'', PNone), (''results'', PList [])])"

definition scan_query ::
  "'f expr \<Rightarrow> string \<Rightarrow> 'f dict option \<Rightarrow> int \<Rightarrow> (string \<times> string) list option \<Rightarrow>
   'f query_args" where
  "scan_query expression fields' lastKey limit attrnames =
     (kwargs expression)
       \<lparr>ScanIndexForward := Some False,
        ProjectionExpression := Some fields',
        Limit := Some limit,
        ExpressionAttributeNames := (if truthy attrnames then attrnames else None),
        ExclusiveStartKey := (if truthy lastKey then lastKey else None)\<rparr>"

definition Dynamo_scanPaginate ::
  "(decimal \<Rightarrow> 'f) \<Rightarrow> ('f, 's) table \<Rightarrow> 'f expr \<Rightarrow> string \<Rightarrow> 'f dict option \<Rightarrow> int \<Rightarrow>
   (string \<times> string) list option \<Rightarrow>
   ('f request, 's) world \<Rightarrow> (exn + 'f ret) \<times> ('f request, 's) world" where
  "Dynamo_scanPaginate fl tabela expression fields' lastKey limit attrnames =
     try_call tabela (Query (scan_query expression fields' lastKey limit attrnames)) empty_page
       (\<lambda>response w.
          case Items response of
            Some items \<Rightarrow>
              if items \<noteq> [] then
                (case json_normalize fl (PList items) of
                   Inl err \<Rightarrow> (Inl err, w)
                 | Inr results \<Rightarrow>
                     (Inr (Value (PDict
                        [(''lastKey'',
                            (case LastEvaluatedKey response of
                               None \<Rightarrow> PNone | Some key \<Rightarrow> PDict key)),
                         (''results'', results)])), w))
              else (Inr empty_page, logging_warning w)
          | None \<Rightarrow> (Inr empty_page, logging_warning w))"

definition scan_filter_query :: "'f expr \<Rightarrow> int \<Rightarrow> 'f query_args" where
  "scan_filter_query expression limit =
     (kwargs expression)\<lparr>Limit := Some limit, ScanIndexForward := Some False\<rparr>"

definition Dynamo_scanFilter ::
  "(decimal \<Rightarrow> 'f) \<Rightarrow> ('f, 's) table \<Rightarrow> 'f expr \<Rightarrow> int \<Rightarrow>
   ('f request, 's) world \<Rightarrow> (exn + 'f ret) \<times> ('f request, 's) world" where
  "Dynamo_scanFilter fl tabela expression limit =
     try_call tabela (Query (scan_filter_query expression limit)) sentinel (return_items fl)"

text \<open>
  \<open>queryFilter\<close>: for a filter that is true, \<^verbatim>\<open>filtro['tela']\<close> is looked up while the
  arguments of the call are built; a missing key raises \<^verbatim>\<open>KeyError\<close>, which the handler
  for \<^verbatim>\<open>ClientError\<close> does not catch.
\<close>

definition tela_query :: "'f expr \<Rightarrow> 'f pyval \<Rightarrow> 'f query_args" where
  "tela_query expression tela =
     (kwargs expression)
       \<lparr>FilterExpression := Some (Expr_text ''tela = :t OR descricao = :d OR cliente = :c''),
        ExpressionAttributeValues :=
          Some [('':t'', tela), ('':d'', PBool False), ('':c'', PBool False)]\<rparr>"

definition Dynamo_queryFilter ::
  "(decimal \<Rightarrow> 'f) \<Rightarrow> ('f, 's) table \<Rightarrow> 'f expr \<Rightarrow> 'f dict option \<Rightarrow>
   ('f request, 's) world \<Rightarrow> (exn + 'f ret) \<times> ('f request, 's) world" where
  "Dynamo_queryFilter fl tabela expression filtro w =
     (if truthy filtro then
        (case map_of (case filtro of None \<Rightarrow> [] | Some f \<Rightarrow> f) ''tela'' of
           None \<Rightarrow> (Inl (KeyError ''tela''), w)
         | Some tela \<Rightarrow>
             try_call tabela (Query (tela_query expression tela)) sentinel (return_items fl) w)
      else try_call tabela (Query (kwargs expression)) sentinel (return_items fl) w)"

definition count_query :: "'f expr \<Rightarrow> 'f query_args" where
  "count_query params =
     (kwargs params)\<lparr>ScanIndexForward := Some False, Select := Some ''COUNT''\<rparr>"

definition Dynamo_countQuery ::
  "('f, 's) table \<Rightarrow> 'f expr \<Rightarrow>
   ('f request, 's) world \<Rightarrow> (exn + 'f ret) \<times> ('f request, 's) world" where
  "Dynamo_countQuery tabela params =
     try_call tabela (Query (count_query params)) sentinel
       (\<lambda>response w.
          case Count response of
            Some count \<Rightarrow> (Inr (Value (PInt count)), w)
          | None \<Rightarrow> (Inr sentinel, logging_warning w))"

section \<open>The relational store\<close>

text \<open>
  A statement is executed on a cursor of the global connection. Opening the cursor,
  executing or fetching may raise; otherwise the cursor has column descriptors
  (\<open>description\<close>, of which the module reads the names; \<^verbatim>\<open>None\<close> when the statement returns no
  rows at all) and the rows.
\<close>

record 'f result_set =
  description :: "string list option"
  rows :: "'f pyval list list"

type_synonym ('f, 's) db = "string \<Rightarrow> 's \<Rightarrow> (exn + 'f result_set) \<times> 's"

text \<open>\<^verbatim>\<open>dict(zip(columns, row))\<close>: a later value for the same key replaces the earlier one.\<close>

fun dict_set :: "'k \<Rightarrow> 'v \<Rightarrow> ('k \<times> 'v) list \<Rightarrow> ('k \<times> 'v) list" where
  "dict_set k v [] = [(k, v)]"
| "dict_set k v ((k', v') # kvs) =
     (if k = k' then (k', v) # kvs else (k', v') # dict_set k v kvs)"

definition py_dict :: "('k \<times> 'v) list \<Rightarrow> ('k \<times> 'v) list" where
  "py_dict kvs = foldl (\<lambda>d (k, v). dict_set k v d) [] kvs"

text \<open>\<^verbatim>\<open>str\<close> of an integer, as an f-string renders it.\<close>

fun digits :: "nat \<Rightarrow> string" where
  "digits n = (if n < 10 then [''0123456789'' ! n] else digits (n div 10) @ [''0123456789'' ! (n mod 10)])"

declare digits.simps [simp del]

definition str_int :: "int \<Rightarrow> string" where
  "str_int i = (if i < 0 then ''-'' @ digits (nat (- i)) else digits (nat i))"

definition newline :: char where
  "newline = CHR 0x0A"

text \<open>The line breaks and indentations of the two triple-quoted statements.\<close>

definition line :: string where
  "line = newline # replicate 12 CHR '' ''"

definition last_line :: string where
  "last_line = newline # replicate 8 CHR '' ''"

definition text_of :: "string option \<Rightarrow> string" where
  "text_of s = (case s of None \<Rightarrow> [] | Some t \<Rightarrow> t)"

section \<open>OperationsSQL\<close>

text \<open>
  \<^verbatim>\<open>columns = [col[0] for col in cursor.description]\<close> and the list of records; iterating
  over a description that is \<^verbatim>\<open>None\<close> raises \<^verbatim>\<open>TypeError\<close>.
\<close>

definition fetch_records :: "'f result_set \<Rightarrow> exn + 'f pyval" where
  "fetch_records cursor =
     (case description cursor of
        None \<Rightarrow> Inl TypeError
      | Some columns \<Rightarrow> Inr (PList (map (\<lambda>row. PDict (py_dict (zip columns row))) (rows cursor))))"



definition filter_statement ::
  "string \<Rightarrow> string option \<Rightarrow> string option \<Rightarrow> string option \<Rightarrow> int \<Rightarrow> int \<Rightarrow>
   string option \<Rightarrow> string option \<Rightarrow> string" where
  "filter_statement tabela condicao campo_ordenar ordenacao limite_por_pagina pagina
     inner_join_receive select_receive =
     (let offset = (pagina - 1) * limite_por_pagina;
          where_clause = (if truthy condicao then ''WHERE '' @ text_of condicao else '''');
          order_clause =
            (if truthy campo_ordenar \<and> truthy ordenacao
             then ''ORDER BY '' @ text_of campo_ordenar @ '' '' @ text_of ordenacao else '''');
          inner_join = (if truthy inner_join_receive then text_of inner_join_receive else '''');
          select = (if truthy select_receive then text_of select_receive else ''*'')
      in line @ ''SELECT '' @ select @ '' FROM '' @ tabela @
         line @ inner_join @
         line @ where_clause @
         line @ order_clause @
         line @ ''LIMIT '' @ str_int limite_por_pagina @ '' OFFSET '' @ str_int offset @
         last_line)"

definition run_statement ::
  "('f, 's) db \<Rightarrow> string \<Rightarrow> (string, 's) world \<Rightarrow> (exn + 'f pyval) \<times> (string, 's) world" where
  "run_statement db query w =
     (case invoke db query w of
        (Inl err, w1) \<Rightarrow> (Inr (PList []), logging_error err w1)
      | (Inr cursor, w1) \<Rightarrow>
          (case fetch_records cursor of
             Inl err \<Rightarrow> (Inr (PList []), logging_error err w1)
           | Inr results \<Rightarrow> (Inr results, w1)))"

definition SQL_filter ::
  "('f, 's) db \<Rightarrow> string \<Rightarrow> string option \<Rightarrow> string option \<Rightarrow> string option \<Rightarrow> int \<Rightarrow> int \<Rightarrow>
   string option \<Rightarrow> string option \<Rightarrow>
   (string, 's) world \<Rightarrow> (exn + 'f pyval) \<times> (string, 's) world" where
  "SQL_filter db tabela condicao campo_ordenar ordenacao limite_por_pagina pagina
     inner_join_receive select_receive =
     run_statement db
       (filter_statement tabela condicao campo_ordenar ordenacao limite_por_pagina pagina
          inner_join_receive select_receive)"

definition count_statement :: "string \<Rightarrow> string \<Rightarrow> string option \<Rightarrow> string option \<Rightarrow> string" where
  "count_statement tabela field_count condicao inner_join_receive =
     (let select = ''COUNT('' @ field_count @ '') AS total'';
          where_clause = (if truthy condicao then ''WHERE '' @ text_of condicao else '''');
          inner_join = (if truthy inner_join_receive then text_of inner_join_receive else '''')
      in line @ ''SELECT '' @ select @ '' FROM '' @ tabela @
         line @ inner_join @
         line @ where_clause @
         last_line)"

definition SQL_count ::
  "('f, 's) db \<Rightarrow> string \<Rightarrow> string \<Rightarrow> string option \<Rightarrow> string option \<Rightarrow>
   (string, 's) world \<Rightarrow> (exn + 'f pyval) \<times> (string, 's) world" where
  "SQL_count db tabela field_count condicao inner_join_receive =
     run_statement db (count_statement tabela field_count condicao inner_join_receive)"

section \<open>Backends for the properties\<close>


text \<open>
  A document store that plays a script: each call takes the next answer of the list, and a
  call after the last answer fails.
\<close>

definition scripted :: "'r \<Rightarrow> (exn + 'a) list \<Rightarrow> (exn + 'a) \<times> (exn + 'a) list" where
  "scripted req s =
     (case s of [] \<Rightarrow> (Inl (OtherException ''no answer left''), []) | a # rest \<Rightarrow> (a, rest))"

text \<open>
  A relational store with one result set, which honours the \<^verbatim>\<open>LIMIT n OFFSET k\<close> that ends
  a statement and rejects a statement that ends otherwise.
\<close>

fun split_ws :: "string \<Rightarrow> string \<Rightarrow> string list" where
  "split_ws cur [] = (if cur = [] then [] else [cur])"
| "split_ws cur (c # cs) =
     (if c = CHR '' '' \<or> c = newline
      then (if cur = [] then split_ws [] cs else cur # split_ws [] cs)
      else split_ws (cur @ [c]) cs)"

definition sql_words :: "string \<Rightarrow> string list" where
  "sql_words s = split_ws [] s"

definition is_digit :: "char \<Rightarrow> bool" where
  "is_digit c = (c \<in> set ''0123456789'')"

definition parse_nat :: "string \<Rightarrow> nat option" where
  "parse_nat s =
     (if s \<noteq> [] \<and> list_all is_digit s
      then Some (foldl (\<lambda>n c. 10 * n + (of_char c - 48)) 0 s) else None)"

definition paged_db :: "string list \<Rightarrow> 'f pyval list list \<Rightarrow> ('f, unit) db" where
  "paged_db columns all_rows query s =
     (case rev (sql_words query) of
        k # kw_offset # n # kw_limit # before \<Rightarrow>
          (case (parse_nat n, parse_nat k) of
             (Some page_size, Some skip) \<Rightarrow>
               if kw_limit = ''LIMIT'' \<and> kw_offset = ''OFFSET''
               then (Inr \<lparr>description = Some columns, rows = take page_size (drop skip all_rows)\<rparr>, s)
               else (Inl (OtherException ''syntax error''), s)
           | _ \<Rightarrow> (Inl (OtherException ''syntax error''), s))
      | _ \<Rightarrow> (Inl (OtherException ''syntax error''), s))"

section \<open>Example data\<close>

text \<open>
  Concrete inputs for the properties below. In them the type of floats is instantiated by
  \<open>decimal\<close> and \<^verbatim>\<open>float(o)\<close> by the identity: a float is named by the decimal it was
  made from.
\<close>

definition answer :: "'f pyval list \<Rightarrow> 'f dict option \<Rightarrow> 'f response" where
  "answer items cursor =
     \<lparr>Item = None, Items = Some items, LastEvaluatedKey = cursor,
      Count = Some (int (length items)), Attributes = None, Rest = []\<rparr>"

definition record_of :: "nat \<Rightarrow> decimal pyval" where
  "record_of n = PDict [(''id'', PDecimal (Dec False n 0))]"

definition fresh :: "'s \<Rightarrow> ('r, 's) world" where
  "fresh s = \<lparr>store = s, trace = [], logs = []\<rparr>"

definition three_pages :: "(exn + decimal response) list" where
  "three_pages =
     [Inr (answer [record_of 1, record_of 2] (Some [(''id'', PDecimal (Dec False 2 0))])),
      Inr (answer [record_of 3] (Some [(''id'', PDecimal (Dec False 3 0))])),
      Inr (answer [record_of 4, record_of 5] None)]"

definition first_page_empty :: "(exn + decimal response) list" where
  "first_page_empty =
     [Inr (answer [] (Some [(''id'', PDecimal (Dec False 2 0))])),
      Inr (answer [record_of 3] (Some [(''id'', PDecimal (Dec False 3 0))])),
      Inr (answer [record_of 4, record_of 5] None)]"

definition empty_with_cursor :: "(exn + decimal response) list" where
  "empty_with_cursor =
     [Inr (answer [] (Some [(''id'', PDecimal (Dec False 7 0))])),
      Inr (answer [record_of 8] None)]"

definition one_page :: "(exn + decimal response) list" where
  "one_page =
     [Inr (answer [record_of 1, record_of 2] (Some [(''id'', PDecimal (Dec False 2 0))]))]"


text \<open>Reading a field of a returned object.\<close>

fun field :: "string \<Rightarrow> (exn + 'f ret) \<Rightarrow> 'f pyval option" where
  "field k (Inr (Value (PDict kvs))) = map_of kvs k"
| "field k r = None"

definition twelve_rows :: "decimal pyval list list" where
  "twelve_rows = map (\<lambda>n. [PInt n]) [1, 2, 3, 4, 5, 6, 7, 8, 9, 10, 11, 12]"

text \<open>The characters at which \<open>split_ws\<close> cuts.\<close>

definition whitespace :: "char \<Rightarrow> bool" where
  "whitespace c = (c = CHR '' '' \<or> c = newline)"

section \<open>Outcomes\<close>



section \<open>The operations of the document store as one family\<close>

text \<open>
  To speak about every operation of \<open>OperationsDynamo\<close> at once: an operation with its
  arguments, and \<open>run\<close>, which calls it. Only \<open>listAllPaginate\<close> can fail to return.
\<close>

datatype 'f operation =
    Get "'f dict"
  | GetByIndex "'f dict"
  | Update "'f dict" string "'f dict" "(string \<times> string) list option"
  | Create "'f dict"
  | Remove "'f dict" string "'f dict"
  | ListAll "'f expr" "string option" "'f expr option" "(string \<times> string) list option"
  | ListAllPaginate "'f expr" "string option" "(string \<times> string) list option"
  | GetFirstRegistry "'f expr" "string option"
  | GetLastRegistry "'f expr" "string option"
  | ScanPaginate "'f expr" string "'f dict option" int "(string \<times> string) list option"
  | ScanFilter "'f expr" int
  | QueryFilter "'f expr" "'f dict option"
  | CountQuery "'f expr"

fun run ::
  "(decimal \<Rightarrow> 'f) \<Rightarrow> ('f, 's) table \<Rightarrow> 'f operation \<Rightarrow> ('f request, 's) world \<Rightarrow>
   ((exn + 'f ret) \<times> ('f request, 's) world) option" where
  "run fl tabela (Get params) w = Some (Dynamo_get fl tabela params w)"
| "run fl tabela (GetByIndex index) w = Some (Dynamo_getByIndex fl tabela index w)"
| "run fl tabela (Update condition expression attr attrnames) w =
     Some (Dynamo_update tabela condition expression attr attrnames w)"
| "run fl tabela (Create params) w = Some (Dynamo_create fl tabela params w)"
| "run fl tabela (Remove params condition attr) w =
     Some (Dynamo_remove fl tabela params condition attr w)"
| "run fl tabela (ListAll params fields' filter_arg attrnames) w =
     Some (Dynamo_listAll fl tabela params fields' filter_arg attrnames w)"
| "run fl tabela (ListAllPaginate params fields' attrnames) w =
     Dynamo_listAllPaginate fl tabela params fields' attrnames w"
| "run fl tabela (GetFirstRegistry params fields') w =
     Some (Dynamo_getFirstRegistry fl tabela params fields' w)"
| "run fl tabela (GetLastRegistry params fields') w =
     Some (Dynamo_getLastRegistry fl tabela params fields' w)"
| "run fl tabela (ScanPaginate expression fields' lastKey limit attrnames) w =
     Some (Dynamo_scanPaginate fl tabela expression fields' lastKey limit attrnames w)"
| "run fl tabela (ScanFilter expression limit) w =
     Some (Dynamo_scanFilter fl tabela expression limit w)"
| "run fl tabela (QueryFilter expression filtro) w =
     Some (Dynamo_queryFilter fl tabela expression filtro w)"
| "run fl tabela (CountQuery params) w = Some (Dynamo_countQuery tabela params w)"

text \<open>
  The call with which an operation begins, or the exception that it raises before any
  call. That the operations make exactly this call first is proved below, not assumed.
\<close>

fun first_request :: "'f operation \<Rightarrow> exn + 'f request" where
  "first_request (Get params) = Inr (GetItem params)"
| "first_request (GetByIndex []) = Inl IndexError"
| "first_request (GetByIndex ((index_key, val) # rest)) = Inr (Query (index_query index_key val))"
| "first_request (Update condition expression attr attrnames) =
     Inr (UpdateItem condition expression attr ''UPDATED_NEW''
            (if truthy attrnames then attrnames else None))"
| "first_request (Create params) = Inr (PutItem params)"
| "first_request (Remove params condition attr) = Inr (DeleteItem params condition attr)"
| "first_request (ListAll params fields' filter_arg attrnames) =
     Inr (Query ((list_query params fields' attrnames)
            \<lparr>FilterExpression := (if truthy_expr filter_arg then filter_arg else None)\<rparr>))"
| "first_request (ListAllPaginate params fields' attrnames) =
     Inr (Query (list_query params fields' attrnames))"
| "first_request (GetFirstRegistry params fields') = Inr (Query (registry_query params fields' True))"
| "first_request (GetLastRegistry params fields') = Inr (Query (registry_query params fields' False))"
| "first_request (ScanPaginate expression fields' lastKey limit attrnames) =
     Inr (Query (scan_query expression fields' lastKey limit attrnames))"
| "first_request (ScanFilter expression limit) = Inr (Query (scan_filter_query expression limit))"
| "first_request (QueryFilter expression filtro) =
     (if truthy filtro then
        (case map_of (case filtro of None \<Rightarrow> [] | Some f \<Rightarrow> f) ''tela'' of
           None \<Rightarrow> Inl (KeyError ''tela'')
         | Some tela \<Rightarrow> Inr (Query (tela_query expression tela)))
      else Inr (Query (kwargs expression)))"
| "first_request (CountQuery params) = Inr (Query (count_query params))"



definition throttled :: exn where
  "throttled =
     ClientError (Some [(''Code'', ''ProvisionedThroughputExceededException''),
                        (''Message'', ''rate exceeded'')])"


definition fault_then_page :: "(exn + decimal response) list" where
  "fault_then_page =
     [Inr (answer [record_of 1] (Some [(''id'', PDecimal (Dec False 1 0))])), Inl throttled]"


section \<open>The normalization as the specification words it\<close>

text \<open>
  Follows the words of the specification, not the code: every decimal is replaced by the
  integer equal to it when its fractional part is zero and by a float otherwise, inside
  mappings and sequences too, and every other value stays as it is.
\<close>

fun spec_normalize :: "(decimal \<Rightarrow> 'f) \<Rightarrow> 'f pyval \<Rightarrow> 'f pyval"
  and spec_normalize_list :: "(decimal \<Rightarrow> 'f) \<Rightarrow> 'f pyval list \<Rightarrow> 'f pyval list"
  and spec_normalize_items :: "(decimal \<Rightarrow> 'f) \<Rightarrow> 'f dict \<Rightarrow> 'f dict"
where
  "spec_normalize fl (PDecimal d) = (if dec_frac d = 0 then PInt (dec_int d) else PFloat (fl d))"
| "spec_normalize fl (PList xs) = PList (spec_normalize_list fl xs)"
| "spec_normalize fl (PDict kvs) = PDict (spec_normalize_items fl kvs)"
| "spec_normalize fl PNone = PNone"
| "spec_normalize fl (PBool b) = PBool b"
| "spec_normalize fl (PInt i) = PInt i"
| "spec_normalize fl (PFloat x) = PFloat x"
| "spec_normalize fl (PStr s) = PStr s"
| "spec_normalize fl (PObject c) = PObject c"
| "spec_normalize_list fl [] = []"
| "spec_normalize_list fl (x # xs) = spec_normalize fl x # spec_normalize_list fl xs"
| "spec_normalize_items fl [] = []"
| "spec_normalize_items fl ((k, v) # kvs) = (k, spec_normalize fl v) # spec_normalize_items fl kvs"

text \<open>
  The values on which code and specification agree: no object unknown to the encoder, and
  every decimal with an integer part of at most \<open>prec\<close> digits and an exponent of at least
  \<open>Etiny\<close>.
\<close>

fun in_context :: "'f pyval \<Rightarrow> bool"
  and in_context_list :: "'f pyval list \<Rightarrow> bool"
  and in_context_items :: "'f dict \<Rightarrow> bool"
where
  "in_context (PDecimal (Dec s c e)) = (dec_trunc (Dec s c e) < 10 ^ prec \<and> Etiny \<le> e)"
| "in_context (PObject c) = False"
| "in_context (PList xs) = in_context_list xs"
| "in_context (PDict kvs) = in_context_items kvs"
| "in_context PNone = True"
| "in_context (PBool b) = True"
| "in_context (PInt i) = True"
| "in_context (PFloat x) = True"
| "in_context (PStr s) = True"
| "in_context_list [] = True"
| "in_context_list (x # xs) = (in_context x \<and> in_context_list xs)"
| "in_context_items [] = True"
| "in_context_items ((k, v) # kvs) = (in_context v \<and> in_context_items kvs)"

section \<open>Properties of the normalization\<close>

lemma encode_idem:
  "encode fl v = Inr w \<Longrightarrow> encode fl w = Inr w"
  "encode_list fl xs = Inr ys \<Longrightarrow> encode_list fl ys = Inr ys"
  "encode_items fl kvs = Inr kws \<Longrightarrow> encode_items fl kws = Inr kws"
proof (induction fl v and fl xs and fl kvs arbitrary: w and ys and kws
    rule: encode_encode_list_encode_items.induct)
  case (6 fl d)
  then show ?case by (auto split: sum.splits if_splits)
qed (auto split: sum.splits)

text \<open>
  Inside the default context the code does what the specification says.
\<close>

lemma encode_in_context:
  "in_context v \<Longrightarrow> encode fl v = Inr (spec_normalize fl v)"
  "in_context_list xs \<Longrightarrow> encode_list fl xs = Inr (spec_normalize_list fl xs)"
  "in_context_items kvs \<Longrightarrow> encode_items fl kvs = Inr (spec_normalize_items fl kvs)"
proof (induction fl v and fl xs and fl kvs rule: encode_encode_list_encode_items.induct)
  case (6 fl d)
  then show ?case by (cases d) auto
qed auto

lemma json_normalize_in_context:
  "in_context v \<Longrightarrow> json_normalize fl v = Inr (spec_normalize fl v)"
  by (simp add: json_normalize_def json_dumps_def encode_in_context)

text \<open>
  C1. The claim says that every decimal with fractional part zero is replaced by the
  integer equal to it. At the decimal \<^verbatim>\<open>Decimal('1E+28')\<close>, whose fractional part is zero,
  \<^verbatim>\<open>o % 1\<close> raises \<^verbatim>\<open>decimal.InvalidOperation\<close> under the default context, and the
  exception leaves \<^verbatim>\<open>json.dumps\<close>: no integer is produced, alone or inside a record.
\<close>

theorem C1_large_decimal_raises:
  "json_normalize fl (PDecimal (Dec False 1 28)) = Inl InvalidOperation \<and>
   json_normalize fl (PDict [(''id'', PStr ''a''), (''n'', PDecimal (Dec False 1 28))]) = Inl InvalidOperation"
  by (simp add: json_normalize_def json_dumps_def prec_def)

text \<open>
  C9. Normalizing twice is normalizing once: when the first normalization returns a value,
  the second returns that value unchanged, and when the first raises, so does the
  sequence of the two.
\<close>

theorem C9_normalize_idempotent:
  "(case json_normalize fl v of Inl err \<Rightarrow> Inl err | Inr w \<Rightarrow> json_normalize fl w) = json_normalize fl v"
  by (auto simp: json_normalize_def json_dumps_def split: sum.splits dest: encode_idem(1))

section \<open>Calls and the pagination loop\<close>

lemma try_call_ClientError:
  "tabela req (store w) = (Inl (ClientError r), s) \<Longrightarrow> error_message r = Inr m \<Longrightarrow>
   try_call tabela req failure else_branch w =
     (Inr failure,
      w\<lparr>store := s, trace := trace w @ [req], logs := logs w @ [Error_entry (ClientError r)]\<rparr>)"
  by (simp add: try_call_def invoke_def logging_error_def)

lemma try_call_ClientError_without_message:
  "tabela req (store w) = (Inl (ClientError r), s) \<Longrightarrow> error_message r = Inl key_error \<Longrightarrow>
   try_call tabela req failure else_branch w =
     (Inl key_error, w\<lparr>store := s, trace := trace w @ [req]\<rparr>)"
  by (simp add: try_call_def invoke_def)

lemma try_call_other_exception:
  "tabela req (store w) = (Inl err, s) \<Longrightarrow> (\<And>r. err \<noteq> ClientError r) \<Longrightarrow>
   try_call tabela req failure else_branch w = (Inl err, w\<lparr>store := s, trace := trace w @ [req]\<rparr>)"
  by (cases err) (auto simp: try_call_def invoke_def)

lemma try_call_response:
  "tabela req (store w) = (Inr response, s) \<Longrightarrow>
   try_call tabela req failure else_branch w =
     else_branch response (w\<lparr>store := s, trace := trace w @ [req]\<rparr>)"
  by (simp add: try_call_def invoke_def)

lemma paginate_done:
  "LastEvaluatedKey response = None \<Longrightarrow>
   paginate tabela query response data w = Some (Inr data, w)"
  by (subst paginate.simps) simp

lemma paginate_step:
  "LastEvaluatedKey response = Some key \<Longrightarrow>
   tabela (Query (query\<lparr>ExclusiveStartKey := Some key\<rparr>)) (store w) = (Inr response1, s) \<Longrightarrow>
   paginate tabela query response data w =
     paginate tabela (query\<lparr>ExclusiveStartKey := Some key\<rparr>) response1
       (data @ (case Items response1 of None \<Rightarrow> [] | Some items \<Rightarrow> items))
       (w\<lparr>store := s, trace := trace w @ [Query (query\<lparr>ExclusiveStartKey := Some key\<rparr>)]\<rparr>)"
  by (subst paginate.simps) (simp add: invoke_def)

lemma paginate_raise:
  "LastEvaluatedKey response = Some key \<Longrightarrow>
   tabela (Query (query\<lparr>ExclusiveStartKey := Some key\<rparr>)) (store w) = (Inl err, s) \<Longrightarrow>
   paginate tabela query response data w =
     Some (Inl err,
           w\<lparr>store := s, trace := trace w @ [Query (query\<lparr>ExclusiveStartKey := Some key\<rparr>)]\<rparr>)"
  by (subst paginate.simps) (simp add: invoke_def)

section \<open>listAllPaginate\<close>

text \<open>
  C2, as stated, fails when the first page is empty: against the pages
  \<open>[[] (cursor), [3] (cursor), [4, 5] (no cursor)]\<close> the operation returns \<^verbatim>\<open>False\<close> after one
  call, not the records of the three pages after three calls.
\<close>

theorem C2_first_page_empty_counterexample:
  "Dynamo_listAllPaginate id scripted (Expr_obj 0) None None (fresh first_page_empty) =
     Some (Inr (Value (PBool False)),
           \<lparr>store = tl first_page_empty,
            trace = [Query (list_query (Expr_obj 0) None None)],
            logs = [Warning_entry]\<rparr>)"
  by (simp add: Dynamo_listAllPaginate_def invoke_def scripted_def first_page_empty_def fresh_def
      answer_def logging_warning_def sentinel_def)

text \<open>
  C2, amended. When the backend answers the query with a non-empty page \<open>P1\<close> and a cursor
  \<open>c1\<close>, the query continued at \<open>c1\<close> with a page \<open>P2\<close> and a cursor \<open>c2\<close>, and the query
  continued at \<open>c2\<close> with a page \<open>P3\<close> and no cursor, \<open>listAllPaginate\<close> returns the
  normalized concatenation \<open>P1 @ P2 @ P3\<close> and has made exactly these three calls, in this
  order.
\<close>

theorem C2_three_pages:
  assumes "tabela (Query (list_query params fields' attrnames)) (store w) = (Inr r1, s1)"
    and "Items r1 = Some P1" and "P1 \<noteq> []" and "LastEvaluatedKey r1 = Some c1"
    and "tabela (Query ((list_query params fields' attrnames)\<lparr>ExclusiveStartKey := Some c1\<rparr>)) s1
           = (Inr r2, s2)"
    and "Items r2 = Some P2" and "LastEvaluatedKey r2 = Some c2"
    and "tabela (Query ((list_query params fields' attrnames)\<lparr>ExclusiveStartKey := Some c2\<rparr>)) s2
           = (Inr r3, s3)"
    and "Items r3 = Some P3" and "LastEvaluatedKey r3 = None"
    and "json_normalize fl (PList (P1 @ P2 @ P3)) = Inr result"
  shows "Dynamo_listAllPaginate fl tabela params fields' attrnames w =
           Some (Inr (Value result),
                 w\<lparr>store := s3,
                   trace := trace w @
                     [Query (list_query params fields' attrnames),
                      Query ((list_query params fields' attrnames)\<lparr>ExclusiveStartKey := Some c1\<rparr>),
                      Query ((list_query params fields' attrnames)\<lparr>ExclusiveStartKey := Some c2\<rparr>)]\<rparr>)"
proof -
  let ?q = "list_query params fields' attrnames"
  let ?w1 = "w\<lparr>store := s1, trace := trace w @ [Query ?q]\<rparr>"
  let ?w2 = "?w1\<lparr>store := s2, trace := trace ?w1 @ [Query (?q\<lparr>ExclusiveStartKey := Some c1\<rparr>)]\<rparr>"
  let ?w3 = "?w2\<lparr>store := s3, trace := trace ?w2 @ [Query (?q\<lparr>ExclusiveStartKey := Some c2\<rparr>)]\<rparr>"
  have first: "invoke tabela (Query ?q) w = (Inr r1, ?w1)"
    using assms(1) by (simp add: invoke_def)
  have "paginate tabela ?q r1 P1 ?w1 =
          paginate tabela (?q\<lparr>ExclusiveStartKey := Some c1\<rparr>) r2 (P1 @ P2) ?w2"
    using paginate_step [of r1 c1 tabela ?q ?w1 r2 s2 P1] assms(4,5,6) by simp
  also have "\<dots> = paginate tabela (?q\<lparr>ExclusiveStartKey := Some c2\<rparr>) r3 ((P1 @ P2) @ P3) ?w3"
    using paginate_step [of r2 c2 tabela "?q\<lparr>ExclusiveStartKey := Some c1\<rparr>" ?w2 r3 s3 "P1 @ P2"]
      assms(7,8,9) by simp
  also have "\<dots> = Some (Inr ((P1 @ P2) @ P3), ?w3)"
    using assms(10) by (rule paginate_done)
  finally have loop: "paginate tabela ?q r1 P1 ?w1 = Some (Inr (P1 @ P2 @ P3), ?w3)"
    by simp
  show ?thesis
    using assms(2,3,11)
    by (simp add: Dynamo_listAllPaginate_def first loop return_normalized_def)
qed

theorem C2_three_pages_witness:
  "Dynamo_listAllPaginate id scripted (Expr_obj 0) None None (fresh three_pages) =
     Some (Inr (Value (PList [PDict [(''id'', PInt 1)], PDict [(''id'', PInt 2)],
                              PDict [(''id'', PInt 3)], PDict [(''id'', PInt 4)],
                              PDict [(''id'', PInt 5)]])),
           \<lparr>store = [],
            trace = [Query (list_query (Expr_obj 0) None None),
                     Query ((list_query (Expr_obj 0) None None)
                        \<lparr>ExclusiveStartKey := Some [(''id'', PDecimal (Dec False 2 0))]\<rparr>),
                     Query ((list_query (Expr_obj 0) None None)
                        \<lparr>ExclusiveStartKey := Some [(''id'', PDecimal (Dec False 3 0))]\<rparr>)],
            logs = []\<rparr>)"
  using C2_three_pages [of scripted "Expr_obj 0" None None "fresh three_pages"
      "answer [record_of 1, record_of 2] (Some [(''id'', PDecimal (Dec False 2 0))])"
      "tl three_pages" "[record_of 1, record_of 2]" "[(''id'', PDecimal (Dec False 2 0))]"
      "answer [record_of 3] (Some [(''id'', PDecimal (Dec False 3 0))])"
      "tl (tl three_pages)" "[record_of 3]" "[(''id'', PDecimal (Dec False 3 0))]"
      "answer [record_of 4, record_of 5] None" "[]" "[record_of 4, record_of 5]" id
      "PList [PDict [(''id'', PInt 1)], PDict [(''id'', PInt 2)],
              PDict [(''id'', PInt 3)], PDict [(''id'', PInt 4)], PDict [(''id'', PInt 5)]]"]
  by (simp add: scripted_def three_pages_def fresh_def answer_def record_of_def
      json_normalize_def json_dumps_def prec_def)

text \<open>
  C10. When the first response has no items (the key is absent or the list is empty),
  \<open>listAllPaginate\<close> returns \<^verbatim>\<open>False\<close> after this one call, whether or not the response
  carries a cursor.
\<close>

theorem C10_no_items_in_first_response:
  assumes "tabela (Query (list_query params fields' attrnames)) (store w) = (Inr response, s)"
    and "\<not> truthy (Items response)"
  shows "Dynamo_listAllPaginate fl tabela params fields' attrnames w =
           Some (Inr (Value (PBool False)),
                 w\<lparr>store := s,
                   trace := trace w @ [Query (list_query params fields' attrnames)],
                   logs := logs w @ [Warning_entry]\<rparr>)"
  using assms
  by (auto simp: Dynamo_listAllPaginate_def invoke_def logging_warning_def sentinel_def
      split: option.splits)

theorem C10_no_items_in_first_response_witness:
  "LastEvaluatedKey (answer [] (Some [(''id'', PDecimal (Dec False 7 0))])) \<noteq> None \<and>
   Dynamo_listAllPaginate id scripted (Expr_obj 0) None None (fresh empty_with_cursor) =
     Some (Inr (Value (PBool False)),
           \<lparr>store = tl empty_with_cursor,
            trace = [Query (list_query (Expr_obj 0) None None)],
            logs = [Warning_entry]\<rparr>)"
  using C10_no_items_in_first_response [of scripted "Expr_obj 0" None None
      "fresh empty_with_cursor" "answer [] (Some [(''id'', PDecimal (Dec False 7 0))])"
      "tl empty_with_cursor" id]
  by (simp add: scripted_def empty_with_cursor_def fresh_def answer_def)

lemma trace_return_items: "trace (snd (return_items fl response w)) = trace w"
  by (simp add: return_items_def return_normalized_def logging_warning_def
      split: option.splits sum.splits)

lemma trace_try_call:
  "(\<And>r v. trace (snd (else_branch r v)) = trace v) \<Longrightarrow>
   trace (snd (try_call tabela req failure else_branch w)) = trace w @ [req]"
  by (simp add: try_call_def invoke_def logging_error_def split: prod.splits sum.splits exn.splits)


section \<open>scanPaginate\<close>

text \<open>
  C4, as stated, fails. The object that \<open>scanPaginate\<close> returns has no field \<open>cursor\<close>: the
  continuation value of the backend is under \<open>lastKey\<close>. And not every backend fault gives the
  empty object: an exception that is no \<open>ClientError\<close> leaves the operation, and so does the
  \<^verbatim>\<open>KeyError\<close> of the handler when the \<open>ClientError\<close> carries no message.
\<close>

theorem C4_no_cursor_field_counterexample:
  "field ''cursor''
     (fst (Dynamo_scanPaginate id scripted (Expr_obj 0) ''id'' None 2 None (fresh one_page))) = None \<and>
   field ''lastKey''
     (fst (Dynamo_scanPaginate id scripted (Expr_obj 0) ''id'' None 2 None (fresh one_page))) =
     Some (PDict [(''id'', PDecimal (Dec False 2 0))]) \<and>
   fst (Dynamo_scanPaginate id scripted (Expr_obj 0) ''id'' None 2 None
          (fresh [Inl (OtherException ''connection failed'') :: exn + decimal response])) =
     Inl (OtherException ''connection failed'') \<and>
   fst (Dynamo_scanPaginate id scripted (Expr_obj 0) ''id'' None 2 None
          (fresh [Inl (ClientError (Some [(''Code'', ''ThrottlingException'')]))
                  :: exn + decimal response])) =
     Inl (KeyError ''Message'')"
  by (simp add: Dynamo_scanPaginate_def try_call_def invoke_def scripted_def one_page_def fresh_def
      answer_def record_of_def json_normalize_def json_dumps_def prec_def scan_query_def
      error_message_def)

text \<open>
  C4, amended. For a response with a non-empty item sequence and a continuation cursor,
  \<open>scanPaginate\<close> returns the object whose field \<open>lastKey\<close> is the continuation value of the
  backend and whose field \<open>results\<close> is the normalized items of that page, after exactly one
  call; when the call raises a \<open>ClientError\<close> that carries a message
  (\<^verbatim>\<open>e.response['Error']['Message']\<close>), it returns \<^verbatim>\<open>{"lastKey": None, "results": []}\<close>, after
  that one call and one error line in the log.
\<close>

theorem C4_scanPaginate_single_page:
  assumes "tabela (Query (scan_query expression fields' lastKey limit attrnames)) (store w) =
             (Inr response, s)"
    and "Items response = Some items" and "items \<noteq> []"
    and "LastEvaluatedKey response = Some key"
    and "json_normalize fl (PList items) = Inr results"
    and "tabela2 (Query (scan_query expression fields' lastKey limit attrnames)) (store w2) =
             (Inl (ClientError r), s2)"
    and "error_message r = Inr m"
  shows "Dynamo_scanPaginate fl tabela expression fields' lastKey limit attrnames w =
           (Inr (Value (PDict [(''lastKey'', PDict key), (''results'', results)])),
            w\<lparr>store := s,
              trace := trace w @ [Query (scan_query expression fields' lastKey limit attrnames)]\<rparr>) \<and>
         Dynamo_scanPaginate fl tabela2 expression fields' lastKey limit attrnames w2 =
           (Inr (Value (PDict [(''lastKey'', PNone), (''results'', PList [])])),
            w2\<lparr>store := s2,
               trace := trace w2 @ [Query (scan_query expression fields' lastKey limit attrnames)],
               logs := logs w2 @ [Error_entry (ClientError r)]\<rparr>)"
  using assms
  by (simp add: Dynamo_scanPaginate_def try_call_ClientError try_call_response empty_page_def)

theorem C4_scanPaginate_single_page_witness:
  "error_message (Some [(''Code'', ''ProvisionedThroughputExceededException''),
                        (''Message'', ''rate exceeded'')]) = Inr ''rate exceeded'' \<and>
   Dynamo_scanPaginate id scripted (Expr_obj 0) ''id'' None 2 None (fresh one_page) =
     (Inr (Value (PDict
        [(''lastKey'', PDict [(''id'', PDecimal (Dec False 2 0))]),
         (''results'', PList [PDict [(''id'', PInt 1)], PDict [(''id'', PInt 2)]])])),
      \<lparr>store = [], trace = [Query (scan_query (Expr_obj 0) ''id'' None 2 None)], logs = []\<rparr>) \<and>
   Dynamo_scanPaginate id scripted (Expr_obj 0) ''id'' None 2 None
     (fresh [Inl throttled :: exn + decimal response]) =
     (Inr (Value (PDict [(''lastKey'', PNone), (''results'', PList [])])),
      \<lparr>store = [], trace = [Query (scan_query (Expr_obj 0) ''id'' None 2 None)],
       logs = [Error_entry throttled]\<rparr>)"
  using C4_scanPaginate_single_page
    [where tabela = scripted and expression = "Expr_obj 0" and fields' = "''id''"
       and lastKey = None and limit = 2 and attrnames = None and w = "fresh one_page"
       and response = "answer [record_of 1, record_of 2] (Some [(''id'', PDecimal (Dec False 2 0))])"
       and s = "[]" and items = "[record_of 1, record_of 2]"
       and key = "[(''id'', PDecimal (Dec False 2 0))]" and fl = id
       and results = "PList [PDict [(''id'', PInt 1)], PDict [(''id'', PInt 2)]]"
       and ?tabela2.0 = scripted
       and ?w2.0 = "fresh [Inl throttled :: exn + decimal response]"
       and r = "Some [(''Code'', ''ProvisionedThroughputExceededException''),
                      (''Message'', ''rate exceeded'')]"
       and m = "''rate exceeded''" and ?s2.0 = "[]"]
  by (simp add: scripted_def one_page_def fresh_def answer_def record_of_def
      json_normalize_def json_dumps_def prec_def throttled_def error_message_def)

section \<open>Counting\<close>

text \<open>
  C5. When the count-only query succeeds with \<open>Count = 0\<close>, \<open>countQuery\<close> returns the integer
  \<open>0\<close>, which is not the value \<^verbatim>\<open>False\<close> returned on failure; when the relational count
  statement yields the row \<open>(0)\<close> under the column \<open>total\<close>, \<open>count\<close> returns the one-record
  sequence \<^verbatim>\<open>[{'total': 0}]\<close>, which is not the empty sequence returned on failure. The
  integer and the boolean are different values of the model, as \<^verbatim>\<open>0\<close> and \<^verbatim>\<open>False\<close> are
  different objects of different types in Python (where \<^verbatim>\<open>0 == False\<close> nevertheless holds: a
  caller tells them apart by \<^verbatim>\<open>is\<close> or by type).
\<close>

theorem C5_zero_count_is_not_failure:
  assumes "tabela (Query (count_query params)) (store w) = (Inr response, s)"
    and "Count response = Some 0"
    and "db (count_statement table_name field_count condicao inner_join_receive) (store v) =
           (Inr cursor, t)"
    and "description cursor = Some [''total'']" and "rows cursor = [[PInt 0]]"
  shows "fst (Dynamo_countQuery tabela params w) = Inr (Value (PInt 0) :: 'f ret) \<and>
         Value (PInt 0) \<noteq> (sentinel :: 'f ret) \<and>
         fst (SQL_count db table_name field_count condicao inner_join_receive v) =
           Inr (PList [PDict [(''total'', PInt 0)]] :: 'f pyval) \<and>
         PList [PDict [(''total'', PInt 0)]] \<noteq> (PList [] :: 'f pyval)"
  using assms
  by (simp add: Dynamo_countQuery_def try_call_response sentinel_def SQL_count_def
      run_statement_def invoke_def fetch_records_def py_dict_def)

theorem C5_zero_count_is_not_failure_witness:
  "fst (Dynamo_countQuery scripted (Expr_obj 0) (fresh [Inr (answer [] None)])) =
     Inr (Value (PInt 0) :: decimal ret) \<and>
   fst (SQL_count scripted ''orders'' ''id'' (Some ''paid = 1'') None
          (fresh [Inr \<lparr>description = Some [''total''], rows = [[PInt 0]]\<rparr>])) =
     Inr (PList [PDict [(''total'', PInt 0)]] :: decimal pyval)"
  using C5_zero_count_is_not_failure
    [where tabela = scripted and params = "Expr_obj 0"
       and w = "fresh [Inr (answer [] None :: decimal response)]"
       and response = "answer [] None" and s = "[]"
       and db = scripted and table_name = "''orders''" and field_count = "''id''"
       and condicao = "Some ''paid = 1''" and inner_join_receive = None
       and v = "fresh [Inr \<lparr>description = Some [''total''], rows = [[PInt 0 :: decimal pyval]]\<rparr>]"
       and cursor = "\<lparr>description = Some [''total''], rows = [[PInt 0]]\<rparr>" and t = "[]"]
  by (simp add: scripted_def fresh_def answer_def)

section \<open>queryFilter\<close>

text \<open>
  C8. With a filter that has a field \<open>tela\<close>, \<open>queryFilter\<close> makes one query, whose filter
  expression is the fixed text and whose values bind \<open>:t\<close> to that field and \<open>:d\<close>, \<open>:c\<close> to
  \<^verbatim>\<open>False\<close>; with no filter it makes one query with the key condition alone.
\<close>

theorem C8_queryFilter_fixed_filter:
  assumes "map_of f ''tela'' = Some t"
  shows "trace (snd (Dynamo_queryFilter fl tabela expression (Some f) w)) =
           trace w @
           [Query \<lparr>IndexName = None, KeyConditionExpression = expression,
                   FilterExpression = Some (Expr_text ''tela = :t OR descricao = :d OR cliente = :c''),
                   ProjectionExpression = None, ExpressionAttributeNames = None,
                   ExpressionAttributeValues =
                     Some [('':t'', t), ('':d'', PBool False), ('':c'', PBool False)],
                   ScanIndexForward = None, Limit = None, ExclusiveStartKey = None,
                   Select = None\<rparr>] \<and>
         trace (snd (Dynamo_queryFilter fl tabela expression None w)) =
           trace w @
           [Query \<lparr>IndexName = None, KeyConditionExpression = expression,
                   FilterExpression = None,
                   ProjectionExpression = None, ExpressionAttributeNames = None,
                   ExpressionAttributeValues = None,
                   ScanIndexForward = None, Limit = None, ExclusiveStartKey = None,
                   Select = None\<rparr>]"
proof -
  from assms have "f \<noteq> []" by auto
  with assms show ?thesis
    by (simp add: Dynamo_queryFilter_def trace_try_call trace_return_items tela_query_def kwargs_def)
qed

theorem C8_queryFilter_fixed_filter_witness:
  "map_of [(''tela'', PStr ''home''), (''descricao'', PStr ''x'')] ''tela'' =
     Some (PStr ''home'' :: decimal pyval) \<and>
   trace (snd (Dynamo_queryFilter id scripted (Expr_obj 0)
      (Some [(''tela'', PStr ''home''), (''descricao'', PStr ''x'')]) (fresh []))) =
     [Query \<lparr>IndexName = None, KeyConditionExpression = Expr_obj 0,
             FilterExpression = Some (Expr_text ''tela = :t OR descricao = :d OR cliente = :c''),
             ProjectionExpression = None, ExpressionAttributeNames = None,
             ExpressionAttributeValues =
               Some [('':t'', PStr ''home''), ('':d'', PBool False), ('':c'', PBool False)],
             ScanIndexForward = None, Limit = None, ExclusiveStartKey = None,
             Select = None\<rparr>]"
  using C8_queryFilter_fixed_filter
    [where f = "[(''tela'', PStr ''home''), (''descricao'', PStr ''x'')]"
       and t = "PStr ''home'' :: decimal pyval" and fl = id and tabela = scripted
       and expression = "Expr_obj 0" and w = "fresh []"]
  by (simp add: fresh_def)

section \<open>getFirstRegistry and getLastRegistry\<close>



section \<open>The statement of the relational filter\<close>

lemma split_ws_sep:
  "whitespace c \<Longrightarrow> split_ws cur (xs @ c # ys) = split_ws cur xs @ split_ws [] ys"
  by (induction xs arbitrary: cur) (auto simp: whitespace_def)

lemma sql_words_sep:
  "whitespace c \<Longrightarrow> sql_words (xs @ c # ys) = sql_words xs @ sql_words ys"
  by (simp add: sql_words_def split_ws_sep)

lemma sql_words_Nil: "sql_words [] = []"
  by (simp add: sql_words_def)

lemma sql_words_blanks: "sql_words (replicate n CHR '' '' @ ys) = sql_words ys"
  by (induction n) (simp_all add: sql_words_def)

lemma sql_words_line: "sql_words (xs @ line @ ys) = sql_words xs @ sql_words ys"
  using sql_words_sep [of newline xs "replicate 12 CHR '' '' @ ys"]
  by (simp add: line_def whitespace_def sql_words_blanks)

lemma sql_words_last_line: "sql_words (xs @ last_line) = sql_words xs"
  using sql_words_sep [of newline xs "replicate 8 CHR '' ''"] sql_words_blanks [of 8 "[]"]
  by (simp add: last_line_def whitespace_def sql_words_Nil)

lemma sql_words_space: "sql_words (xs @ CHR '' '' # ys) = sql_words xs @ sql_words ys"
  by (rule sql_words_sep) (simp add: whitespace_def)

lemma split_ws_word:
  "\<not> list_ex whitespace w \<Longrightarrow> cur @ w \<noteq> [] \<Longrightarrow> split_ws cur w = [cur @ w]"
  by (induction w arbitrary: cur) (auto simp: whitespace_def)

lemma sql_words_word: "\<not> list_ex whitespace w \<Longrightarrow> w \<noteq> [] \<Longrightarrow> sql_words w = [w]"
  using split_ws_word [of w "[]"] by (simp add: sql_words_def)

lemma digits_nonempty: "digits n \<noteq> []"
  by (subst digits.simps) simp

lemma digit_no_ws: "d < 10 \<Longrightarrow> \<not> whitespace (''0123456789'' ! d)"
proof -
  assume "d < 10"
  then have "d \<in> {0, 1, 2, 3, 4, 5, 6, 7, 8, 9}" by auto
  then show ?thesis by (auto simp: whitespace_def newline_def)
qed

lemma digits_no_ws: "\<not> list_ex whitespace (digits n)"
proof (induction n rule: digits.induct)
  case (1 n)
  show ?case
  proof (cases "n < 10")
    case True
    then show ?thesis by (subst digits.simps) (simp add: digit_no_ws)
  next
    case False
    with 1 show ?thesis by (subst digits.simps) (simp add: digit_no_ws)
  qed
qed

lemma sql_words_str_int: "sql_words (str_int i) = [str_int i]"
  by (rule sql_words_word)
    (auto simp: str_int_def digits_no_ws digits_nonempty whitespace_def newline_def)

lemma sql_words_line0: "sql_words (line @ ys) = sql_words ys"
  using sql_words_line [of "[]" ys] by (simp add: sql_words_Nil)

lemma kw_SELECT: "sql_words (''SELECT '' @ ys) = ''SELECT'' # sql_words ys"
  using sql_words_space [of "''SELECT''" ys] sql_words_word [of "''SELECT''"]
  by (simp add: whitespace_def newline_def)

lemma kw_FROM: "sql_words (xs @ '' FROM '' @ ys) = sql_words xs @ ''FROM'' # sql_words ys"
  using sql_words_space [of xs "''FROM '' @ ys"] sql_words_space [of "''FROM''" ys]
    sql_words_word [of "''FROM''"]
  by (simp add: whitespace_def newline_def)

lemma kw_WHERE: "sql_words (''WHERE '' @ ys) = ''WHERE'' # sql_words ys"
  using sql_words_space [of "''WHERE''" ys] sql_words_word [of "''WHERE''"]
  by (simp add: whitespace_def newline_def)

lemma kw_ORDER_BY:
  "sql_words (''ORDER BY '' @ xs @ '' '' @ ys) = ''ORDER'' # ''BY'' # sql_words xs @ sql_words ys"
  using sql_words_space [of "''ORDER''" "''BY '' @ xs @ '' '' @ ys"]
    sql_words_space [of "''BY''" "xs @ '' '' @ ys"] sql_words_space [of xs ys]
    sql_words_word [of "''ORDER''"] sql_words_word [of "''BY''"]
  by (simp add: whitespace_def newline_def)

lemma kw_LIMIT_OFFSET:
  "sql_words (''LIMIT '' @ str_int n @ '' OFFSET '' @ str_int k @ last_line) =
     [''LIMIT'', str_int n, ''OFFSET'', str_int k]"
  using sql_words_space [of "''LIMIT''" "str_int n @ '' OFFSET '' @ str_int k @ last_line"]
    sql_words_space [of "str_int n" "''OFFSET '' @ str_int k @ last_line"]
    sql_words_space [of "''OFFSET''" "str_int k @ last_line"]
    sql_words_last_line [of "str_int k"]
    sql_words_word [of "''LIMIT''"] sql_words_word [of "''OFFSET''"]
  by (simp add: whitespace_def newline_def sql_words_str_int)

lemma filter_statement_words:
  "sql_words (filter_statement tabela condicao campo_ordenar ordenacao limite_por_pagina pagina
      inner_join_receive select_receive) =
   ''SELECT'' # sql_words (if truthy select_receive then text_of select_receive else ''*'') @
   ''FROM'' # sql_words tabela @
   sql_words (if truthy inner_join_receive then text_of inner_join_receive else []) @
   (if truthy condicao then ''WHERE'' # sql_words (text_of condicao) else []) @
   (if truthy campo_ordenar \<and> truthy ordenacao
    then ''ORDER'' # ''BY'' # sql_words (text_of campo_ordenar) @ sql_words (text_of ordenacao)
    else []) @
   [''LIMIT'', str_int limite_por_pagina, ''OFFSET'', str_int ((pagina - 1) * limite_por_pagina)]"
proof -
  have w: "sql_words (if truthy condicao then ''WHERE '' @ text_of condicao else []) =
      (if truthy condicao then ''WHERE'' # sql_words (text_of condicao) else [])"
    by (simp only: kw_WHERE sql_words_Nil if_distrib [of sql_words])
  have o: "sql_words (if truthy campo_ordenar \<and> truthy ordenacao
        then ''ORDER BY '' @ text_of campo_ordenar @ '' '' @ text_of ordenacao else []) =
      (if truthy campo_ordenar \<and> truthy ordenacao
       then ''ORDER'' # ''BY'' # sql_words (text_of campo_ordenar) @ sql_words (text_of ordenacao)
       else [])"
    by (simp only: kw_ORDER_BY sql_words_Nil if_distrib [of sql_words])
  show ?thesis
    unfolding filter_statement_def Let_def
    by (simp only: sql_words_line0 kw_SELECT kw_FROM sql_words_line kw_LIMIT_OFFSET w o)
qed

text \<open>
  C7. \<open>filter\<close> executes one statement. Read as a sequence of words, the statement is
  \<open>SELECT\<close>, the projection (\<open>*\<close> when none is given), \<open>FROM\<close>, the table, the join clause,
  \<open>WHERE\<close> and the predicate when one is given, \<open>ORDER BY\<close> with field and direction when both
  are given, and \<open>LIMIT\<close>, the page size, \<open>OFFSET\<close>, \<open>(pagina - 1) * limite_por_pagina\<close>. With
  page 2 and page size 5 against a store whose result set has the rows 1 to 12 and which
  honours \<open>LIMIT\<close> and \<open>OFFSET\<close>, the statement ends with \<open>LIMIT 5 OFFSET 5\<close> and the result
  is the rows 6 to 10.
\<close>

theorem C7_filter_offset_and_shape:
  "trace (snd (SQL_filter db tabela condicao campo_ordenar ordenacao limite_por_pagina pagina
      inner_join_receive select_receive w)) =
     trace w @ [filter_statement tabela condicao campo_ordenar ordenacao limite_por_pagina pagina
                  inner_join_receive select_receive] \<and>
   sql_words (filter_statement tabela condicao campo_ordenar ordenacao limite_por_pagina pagina
      inner_join_receive select_receive) =
     ''SELECT'' # sql_words (if truthy select_receive then text_of select_receive else ''*'') @
     ''FROM'' # sql_words tabela @
     sql_words (if truthy inner_join_receive then text_of inner_join_receive else []) @
     (if truthy condicao then ''WHERE'' # sql_words (text_of condicao) else []) @
     (if truthy campo_ordenar \<and> truthy ordenacao
      then ''ORDER'' # ''BY'' # sql_words (text_of campo_ordenar) @ sql_words (text_of ordenacao)
      else []) @
     [''LIMIT'', str_int limite_por_pagina, ''OFFSET'',
      str_int ((pagina - 1) * limite_por_pagina)] \<and>
   sql_words (filter_statement ''t'' None None None 5 2 None None) =
     [''SELECT'', ''*'', ''FROM'', ''t'', ''LIMIT'', ''5'', ''OFFSET'', ''5''] \<and>
   fst (SQL_filter (paged_db [''id''] twelve_rows) ''t'' None None None 5 2 None None (fresh ())) =
     Inr (PList [PDict [(''id'', PInt 6)], PDict [(''id'', PInt 7)], PDict [(''id'', PInt 8)],
                 PDict [(''id'', PInt 9)], PDict [(''id'', PInt 10)]])"
proof (intro conjI)
  show "trace (snd (SQL_filter db tabela condicao campo_ordenar ordenacao limite_por_pagina pagina
      inner_join_receive select_receive w)) =
     trace w @ [filter_statement tabela condicao campo_ordenar ordenacao limite_por_pagina pagina
                  inner_join_receive select_receive]"
    by (simp add: SQL_filter_def run_statement_def invoke_def logging_error_def
        split: prod.splits sum.splits)
  show "sql_words (filter_statement tabela condicao campo_ordenar ordenacao limite_por_pagina
      pagina inner_join_receive select_receive) =
     ''SELECT'' # sql_words (if truthy select_receive then text_of select_receive else ''*'') @
     ''FROM'' # sql_words tabela @
     sql_words (if truthy inner_join_receive then text_of inner_join_receive else []) @
     (if truthy condicao then ''WHERE'' # sql_words (text_of condicao) else []) @
     (if truthy campo_ordenar \<and> truthy ordenacao
      then ''ORDER'' # ''BY'' # sql_words (text_of campo_ordenar) @ sql_words (text_of ordenacao)
      else []) @
     [''LIMIT'', str_int limite_por_pagina, ''OFFSET'',
      str_int ((pagina - 1) * limite_por_pagina)]"
    by (rule filter_statement_words)
  show "sql_words (filter_statement ''t'' None None None 5 2 None None) =
     [''SELECT'', ''*'', ''FROM'', ''t'', ''LIMIT'', ''5'', ''OFFSET'', ''5'']"
    by (simp add: filter_statement_words str_int_def digits.simps sql_words_Nil sql_words_word
        whitespace_def newline_def)
  show "fst (SQL_filter (paged_db [''id''] twelve_rows) ''t'' None None None 5 2 None None
           (fresh ())) =
     Inr (PList [PDict [(''id'', PInt 6)], PDict [(''id'', PInt 7)], PDict [(''id'', PInt 8)],
                 PDict [(''id'', PInt 9)], PDict [(''id'', PInt 10)]])"
    by (simp add: SQL_filter_def run_statement_def invoke_def paged_db_def filter_statement_words
        str_int_def digits.simps parse_nat_def is_digit_def fresh_def twelve_rows_def
        fetch_records_def py_dict_def sql_words_Nil sql_words_word whitespace_def newline_def)
qed

section \<open>Faults\<close>












lemma first_request_GetByIndex:
  assumes "first_request (GetByIndex index) = Inr req"
  obtains index_key val rest where "index = (index_key, val) # rest"
    and "req = Query (index_query index_key val)"
  using assms by (cases index) auto

lemma first_request_QueryFilter:
  assumes "first_request (QueryFilter expression filtro) = Inr req"
  shows "Dynamo_queryFilter fl tabela expression filtro w =
           try_call tabela req sentinel (return_items fl) w"
  using assms by (auto simp: Dynamo_queryFilter_def split: if_splits option.splits)


lemma run_first_call_ClientError_without_message:
  assumes "first_request c = Inr req"
    and "tabela req (store w) = (Inl (ClientError r), s)"
    and "error_message r = Inl key_error"
  shows "run fl tabela c w = Some (Inl key_error, w\<lparr>store := s, trace := trace w @ [req]\<rparr>)"
proof (cases c)
  case (GetByIndex index)
  with assms(1) obtain index_key val rest where "index = (index_key, val) # rest"
    and "req = Query (index_query index_key val)"
    by (auto elim: first_request_GetByIndex)
  with GetByIndex assms(2,3) show ?thesis
    by (simp add: Dynamo_getByIndex_def try_call_ClientError_without_message)
next
  case (QueryFilter expression filtro)
  with assms show ?thesis
    by (simp add: first_request_QueryFilter try_call_ClientError_without_message
        del: first_request.simps)
next
  case (ListAllPaginate params fields' attrnames)
  with assms show ?thesis
    by (auto simp: Dynamo_listAllPaginate_def invoke_def)
qed (insert assms, auto simp: Dynamo_get_def Dynamo_update_def Dynamo_create_def
    Dynamo_remove_def Dynamo_listAll_def Dynamo_getFirstRegistry_def Dynamo_getLastRegistry_def
    Dynamo_scanPaginate_def Dynamo_scanFilter_def Dynamo_countQuery_def
    try_call_ClientError_without_message)

lemma run_first_call_other_exception:
  assumes "first_request c = Inr req"
    and "tabela req (store w) = (Inl err, s)"
    and "\<And>r. err \<noteq> ClientError r"
  shows "run fl tabela c w = Some (Inl err, w\<lparr>store := s, trace := trace w @ [req]\<rparr>)"
proof (cases c)
  case (GetByIndex index)
  with assms(1) obtain index_key val rest where "index = (index_key, val) # rest"
    and "req = Query (index_query index_key val)"
    by (auto elim: first_request_GetByIndex)
  with GetByIndex assms(2,3) show ?thesis
    by (simp add: Dynamo_getByIndex_def try_call_other_exception)
next
  case (QueryFilter expression filtro)
  with assms show ?thesis
    by (simp add: first_request_QueryFilter try_call_other_exception del: first_request.simps)
next
  case (ListAllPaginate params fields' attrnames)
  with assms show ?thesis
    by (cases err) (auto simp: Dynamo_listAllPaginate_def invoke_def)
qed (insert assms, auto simp: Dynamo_get_def Dynamo_update_def Dynamo_create_def
    Dynamo_remove_def Dynamo_listAll_def Dynamo_getFirstRegistry_def Dynamo_getLastRegistry_def
    Dynamo_scanPaginate_def Dynamo_scanFilter_def Dynamo_countQuery_def
    try_call_other_exception)

lemma run_before_call:
  assumes "first_request c = Inl err"
  shows "run fl tabela c w = Some (Inl err, w)"
proof (cases c)
  case (GetByIndex index)
  with assms show ?thesis
    by (cases index) (auto simp: Dynamo_getByIndex_def)
next
  case (QueryFilter expression filtro)
  with assms show ?thesis
    by (auto simp: Dynamo_queryFilter_def split: if_splits option.splits)
qed (insert assms, auto)






text \<open>
  The continuation calls of \<open>listAllPaginate\<close> stand outside the \<^verbatim>\<open>try\<close>: a \<open>ClientError\<close>
  of the second call leaves the operation.
\<close>

lemma listAllPaginate_later_fault_propagates:
  "map_option fst
     (Dynamo_listAllPaginate id scripted (Expr_obj 0) None None (fresh fault_then_page)) =
   Some (Inl throttled)"
  by (simp add: Dynamo_listAllPaginate_def invoke_def scripted_def fault_then_page_def fresh_def
      answer_def paginate_raise)




end
